theory Spec2Isabelle
  imports Main
begin

section \<open>The python3 function host: values, exceptions and the process state\<close>

text \<open>
  The program is \<^verbatim>\<open>function-python3.py\<close>: a gRPC servicer \<^verbatim>\<open>mo\<close> with
  \<^verbatim>\<open>Load\<close>, \<^verbatim>\<open>Start\<close>, \<^verbatim>\<open>Call\<close>, and the module-level functions
  \<^verbatim>\<open>load_modules\<close>, \<^verbatim>\<open>get_grpc_server\<close> and \<^verbatim>\<open>get_logger\<close>.

  \<^verbatim>\<open>Close\<close> (a floating-point grace period) and \<^verbatim>\<open>Talk\<close> (whose body is
  \<^verbatim>\<open>pass\<close>) are left out, and so are the threads of the server: calls run one after
  another.

  Byte strings are lists of \<^typ>\<open>char\<close> (a \<^typ>\<open>char\<close> is one byte). Text is held as
  its UTF-8 bytes, so \<^verbatim>\<open>s.encode('utf-8')\<close> is the identity on the representation.
\<close>

type_synonym bytes = string

text \<open>
  The Python values that travel through \<^verbatim>\<open>Call\<close>. The code itself only tells
  \<^verbatim>\<open>None\<close>, \<^verbatim>\<open>bytes\<close> and the empty dict apart; \<open>PObj\<close> stands for any other
  object (a float, a set, an instance of a user class), named by a tag.
\<close>

datatype pyval =
    PNone
  | PBool bool
  | PInt int
  | PStr string
  | PBytes bytes
  | PList "pyval list"
  | PDict "(pyval \<times> pyval) list"
  | PObj string

text \<open>
  A raised exception: \<open>PyExc cls msg\<close> is \<^verbatim>\<open>cls(msg)\<close>, and \<open>PyExcWrap tag err\<close> is
  the two-argument \<^verbatim>\<open>Exception(tag, err)\<close> that \<^verbatim>\<open>Call\<close> raises around a caught
  exception.
\<close>

datatype pyexc =
    PyExc string string
  | PyExcWrap string pyexc

text \<open>
  The part of the process and of the operating system the program touches:
  the current working directory, the directories of the file system (\<open>realdir\<close> maps a
  path that names an existing directory to the absolute path \<^verbatim>\<open>os.getcwd\<close> reports
  once inside it), \<^verbatim>\<open>sys.path\<close>, and what has been written with \<^verbatim>\<open>log.error\<close>.
\<close>

record world =
  cwd :: string
  realdir :: "string \<rightharpoonup> string"
  sys_path :: "string list"
  logged :: "pyexc list"

definition os_getcwd :: "world \<Rightarrow> string" where
  "os_getcwd w = cwd w"

definition os_chdir :: "string \<Rightarrow> world \<Rightarrow> pyexc + world" where
  "os_chdir p w =
     (case realdir w p of
        None \<Rightarrow> Inl (PyExc ''FileNotFoundError'' p)
      | Some d \<Rightarrow> Inr (w\<lparr>cwd := d\<rparr>))"

text \<open>\<^verbatim>\<open>os.path.join(a, b)\<close> of \<^verbatim>\<open>posixpath\<close>, for two arguments.\<close>

definition os_path_join :: "string \<Rightarrow> string \<Rightarrow> string" where
  "os_path_join a b =
     (if b \<noteq> [] \<and> hd b = CHR ''/'' then b
      else if a = [] \<or> last a = CHR ''/'' then a @ b
      else a @ ''/'' @ b)"

text \<open>\<^verbatim>\<open>s.split(sep)\<close> for a one-character separator: never the empty list.\<close>

fun str_split :: "char \<Rightarrow> string \<Rightarrow> string list" where
  "str_split c [] = [[]]"
| "str_split c (x # xs) =
     (if x = c then [] # str_split c xs
      else (case str_split c xs of
              [] \<Rightarrow> [[x]]
            | p # ps \<Rightarrow> (x # p) # ps))"

text \<open>\<^verbatim>\<open>xs.pop()\<close>: the last element and the list without it, IndexError on \<^verbatim>\<open>[]\<close>.\<close>

definition list_pop :: "'a list \<Rightarrow> pyexc + ('a \<times> 'a list)" where
  "list_pop xs =
     (if xs = [] then Inl (PyExc ''IndexError'' ''pop from empty list'')
      else Inr (last xs, butlast xs))"

definition log_error :: "pyexc \<Rightarrow> world \<Rightarrow> world" where
  "log_error err w = w\<lparr>logged := logged w @ [err]\<rparr>"

section \<open>Handlers, requests and the library the program calls\<close>

text \<open>
  The request message of \<^verbatim>\<open>function_pb2\<close>; \<^verbatim>\<open>Call\<close> returns the same message with
  its payload replaced.
\<close>

record request =
  FunctionName :: string
  Payload :: bytes
  QOS :: nat
  Topic :: string
  Timestamp :: int
  FunctionInvokeID :: string

text \<open>The dict \<^verbatim>\<open>ctx\<close> built by \<^verbatim>\<open>Call\<close>, one field per key.\<close>

record call_ctx =
  messageQOS :: nat
  messageTopic :: string
  messageTimestamp :: int
  functionName :: string
  functionInvokeID :: string
  invokeid :: string

text \<open>
  User code runs in the process: it gets the world and returns it changed, together with
  its value or the exception it raised. A handler instance answers \<^verbatim>\<open>get_codedir()\<close>
  and \<^verbatim>\<open>handler(msg, ctx)\<close>; \<^verbatim>\<open>get_codedir()\<close> is taken to return a string, with
  no effect and no exception.
\<close>

type_synonym 'a effect = "world \<Rightarrow> (pyexc + 'a) \<times> world"

record pymodule =
  get_codedir :: string
  handler :: "pyval \<Rightarrow> call_ctx \<Rightarrow> pyval effect"

text \<open>
  A loaded Python source module: its attributes that are handler classes; calling the
  class with the code directory builds the instance.
\<close>

type_synonym py_mod = "string \<rightharpoonup> (string \<Rightarrow> pymodule effect)"

section \<open>The configuration\<close>

text \<open>
  The parsed configuration file. A key that may be absent is an \<open>option\<close>: \<open>None\<close> is
  \<^verbatim>\<open>'key' not in c\<close>. A nested dict read only at its \<^verbatim>\<open>max\<close> key is an option
  of an option. Values have the types the program uses them at.
\<close>

record funcspec =
  fc_name :: "string option"
  fc_handler :: "string option"
  fc_codedir :: "string option"

record server_conf =
  address :: "string option"
  workers :: "int option option"
  concurrent :: "int option option"
  message :: "int option option option"
  ca :: "string option"
  key :: "string option"
  cert :: "string option"
  timeout :: "int option"

record logger_conf =
  path :: "string option"
  level :: "string option"
  age :: "int option option"
  backup :: "int option option"

record config =
  cfg_name :: "string option"
  cfg_server :: "server_conf option"
  cfg_functions :: "funcspec list option"
  cfg_logger :: "logger_conf option"

text \<open>
  The library functions the program calls and this file does not define:
  \<^verbatim>\<open>json.loads\<close>, \<^verbatim>\<open>json.dumps\<close>,
  \<^verbatim>\<open>SourceFileLoader(name, file).load_module()\<close>, \<^verbatim>\<open>open(path, 'rb').read()\<close>,
  \<^verbatim>\<open>yaml.load(open(conf, 'r').read())\<close>, and for the logger \<^verbatim>\<open>os.path.abspath\<close>,
  \<^verbatim>\<open>os.path.dirname\<close>, \<^verbatim>\<open>os.makedirs\<close> and the constructor of
  \<^verbatim>\<open>TimedRotatingFileHandler\<close>, which opens the log file.
\<close>

record pyenv =
  json_loads :: "bytes \<Rightarrow> pyexc + pyval"
  json_dumps :: "pyval \<Rightarrow> pyexc + string"
  load_module :: "string \<Rightarrow> string \<Rightarrow> py_mod effect"
  read_file :: "string \<Rightarrow> world \<Rightarrow> pyexc + bytes"
  yaml_load :: "string \<Rightarrow> world \<Rightarrow> pyexc + config"
  os_path_abspath :: "string \<Rightarrow> world \<Rightarrow> string"
  os_path_dirname :: "string \<Rightarrow> string"
  os_makedirs :: "string \<Rightarrow> world \<Rightarrow> pyexc + world"
  open_log_file :: "string \<Rightarrow> world \<Rightarrow> pyexc + world"

section \<open>The servicer object\<close>

datatype log_level = DEBUG | INFO | WARNING | ERROR

record file_handler =
  filename :: string
  handler_level :: log_level
  interval :: int
  backupCount :: int

record py_logger =
  logger_name :: string
  logger_level :: "log_level option"
  handlers :: "file_handler list"

text \<open>
  What \<^verbatim>\<open>grpc.server\<close> was built with and the port added to it. The calls into
  \<^verbatim>\<open>grpc\<close> only build this value.
\<close>

datatype port =
    InsecurePort string
  | SecurePort string bytes bytes "bytes option" bool

record grpc_server =
  max_workers :: "int option"
  max_message_length :: int
  maximum_concurrent_rpcs :: "int option"
  server_port :: port
  started :: bool

record mo =
  self_config :: config
  self_log :: py_logger
  self_modules :: "string \<rightharpoonup> pymodule"
  self_server :: grpc_server

definition encode_utf8 :: "string \<Rightarrow> bytes" where
  "encode_utf8 s = s"

section \<open>\<^verbatim>\<open>mo.Call\<close>\<close>

definition make_ctx :: "request \<Rightarrow> call_ctx" where
  "make_ctx req =
     \<lparr>messageQOS = QOS req,
      messageTopic = Topic req,
      messageTimestamp = Timestamp req,
      functionName = FunctionName req,
      functionInvokeID = FunctionInvokeID req,
      invokeid = FunctionInvokeID req\<rparr>"

text \<open>
  Lines 92--97: \<^verbatim>\<open>msg = {}\<close>; a non-empty payload is parsed, and kept raw when the
  parse raises.
\<close>

definition decode_payload :: "pyenv \<Rightarrow> bytes \<Rightarrow> pyval" where
  "decode_payload env p =
     (if p \<noteq> [] then
        (case json_loads env p of
           Inr v \<Rightarrow> v
         | Inl err \<Rightarrow> PBytes p)
      else PDict [])"

text \<open>
  The body of the \<^verbatim>\<open>try\<close> of lines 99--104: the three statements after
  \<^verbatim>\<open>curr_path = os.getcwd()\<close>, each of which may raise.
\<close>

definition invoke_in_codedir :: "pymodule \<Rightarrow> pyval \<Rightarrow> call_ctx \<Rightarrow> pyval effect" where
  "invoke_in_codedir m msg ctx w =
     (let curr_path = os_getcwd w in
      case os_chdir (os_path_join curr_path (get_codedir m)) w of
        Inl err \<Rightarrow> (Inl err, w)
      | Inr w1 \<Rightarrow>
          (case handler m msg ctx w1 of
             (Inl err, w2) \<Rightarrow> (Inl err, w2)
           | (Inr r, w2) \<Rightarrow>
               (case os_chdir curr_path w2 of
                  Inl err \<Rightarrow> (Inl err, w2)
                | Inr w3 \<Rightarrow> (Inr r, w3))))"

text \<open>Lines 109--119: the handler's value becomes the payload of the returned message.\<close>

definition encode_result :: "pyenv \<Rightarrow> request \<Rightarrow> pyval \<Rightarrow> request effect" where
  "encode_result env req msg w =
     (case msg of
        PNone \<Rightarrow> (Inr (req\<lparr>Payload := []\<rparr>), w)
      | PBytes b \<Rightarrow> (Inr (req\<lparr>Payload := b\<rparr>), w)
      | _ \<Rightarrow>
          (case json_dumps env msg of
             Inr s \<Rightarrow> (Inr (req\<lparr>Payload := encode_utf8 s\<rparr>), w)
           | Inl err \<Rightarrow> (Inl (PyExcWrap ''[UserCodeReturn] '' err), log_error err w)))"

definition Call :: "pyenv \<Rightarrow> mo \<Rightarrow> request \<Rightarrow> request effect" where
  "Call env self req w =
     (case self_modules self (FunctionName req) of
        None \<Rightarrow> (Inl (PyExc ''Exception'' ''function not found''), w)
      | Some m \<Rightarrow>
          (let ctx = make_ctx req;
               msg = decode_payload env (Payload req)
           in case invoke_in_codedir m msg ctx w of
                (Inl err, w') \<Rightarrow> (Inl (PyExcWrap ''[UserCodeInvoke] '' err), log_error err w')
              | (Inr msg', w') \<Rightarrow> encode_result env req msg' w'))"

section \<open>\<^verbatim>\<open>load_modules\<close>\<close>

text \<open>
  One pass of the \<^verbatim>\<open>for fc in c\<close> loop (lines 134--146), returning the name and the
  instance stored by \<^verbatim>\<open>fs[fc['name']] = module\<close>. The statements run in the order of
  the source: the key check, \<^verbatim>\<open>sys.path.append\<close>, the split and the first
  \<^verbatim>\<open>pop\<close>, \<^verbatim>\<open>chdir\<close> into the code directory, the second \<^verbatim>\<open>pop\<close>, the module
  load, \<^verbatim>\<open>getattr\<close> and the constructor call, and \<^verbatim>\<open>chdir\<close> back.
\<close>

definition load_function :: "pyenv \<Rightarrow> funcspec \<Rightarrow> (string \<times> pymodule) effect" where
  "load_function env fc w =
     (case (fc_name fc, fc_handler fc, fc_codedir fc) of
        (Some nm, Some h, Some cd) \<Rightarrow>
          (let w1 = w\<lparr>sys_path := sys_path w @ [cd]\<rparr>;
               module_handler = str_split CHR ''.'' h
           in case list_pop module_handler of
                Inl err \<Rightarrow> (Inl err, w1)
              | Inr (handler_name, module_handler1) \<Rightarrow>
                  (let curr_path = os_getcwd w1 in
                   case os_chdir (os_path_join curr_path cd) w1 of
                     Inl err \<Rightarrow> (Inl err, w1)
                   | Inr w2 \<Rightarrow>
                       (case list_pop module_handler1 of
                          Inl err \<Rightarrow> (Inl err, w2)
                        | Inr (file, module_handler2) \<Rightarrow>
                            (case load_module env handler_name (file @ ''.py'') w2 of
                               (Inl err, w3) \<Rightarrow> (Inl err, w3)
                             | (Inr py_mod, w3) \<Rightarrow>
                                 (case py_mod handler_name of
                                    None \<Rightarrow> (Inl (PyExc ''AttributeError'' handler_name), w3)
                                  | Some cls \<Rightarrow>
                                      (case cls cd w3 of
                                         (Inl err, w4) \<Rightarrow> (Inl err, w4)
                                       | (Inr module, w4) \<Rightarrow>
                                           (case os_chdir curr_path w4 of
                                              Inl err \<Rightarrow> (Inl err, w4)
                                            | Inr w5 \<Rightarrow> (Inr (nm, module), w5))))))))
      | _ \<Rightarrow>
          (Inl (PyExc ''Exception''
                  ''config invalid, missing function name, handler or codedir''), w))"

fun load_modules_loop ::
  "pyenv \<Rightarrow> (string \<rightharpoonup> pymodule) \<Rightarrow> funcspec list \<Rightarrow> (string \<rightharpoonup> pymodule) effect" where
  "load_modules_loop env fs [] w = (Inr fs, w)"
| "load_modules_loop env fs (fc # c) w =
     (case load_function env fc w of
        (Inl err, w') \<Rightarrow> (Inl err, w')
      | (Inr (nm, module), w') \<Rightarrow> load_modules_loop env (fs(nm \<mapsto> module)) c w')"

definition load_modules :: "pyenv \<Rightarrow> funcspec list \<Rightarrow> (string \<rightharpoonup> pymodule) effect" where
  "load_modules env c w = load_modules_loop env Map.empty c w"

section \<open>\<^verbatim>\<open>get_grpc_server\<close>\<close>

definition nested_max :: "int option option \<Rightarrow> int option" where
  "nested_max d = (case d of Some (Some n) \<Rightarrow> Some n | _ \<Rightarrow> None)"

text \<open>\<^verbatim>\<open>if 'k' in c: with open(c['k'], 'rb') as f: x = f.read()\<close>, otherwise \<^verbatim>\<open>x = None\<close>.\<close>

definition read_if_configured ::
  "pyenv \<Rightarrow> string option \<Rightarrow> world \<Rightarrow> pyexc + bytes option" where
  "read_if_configured env p w =
     (case p of
        None \<Rightarrow> Inr None
      | Some f \<Rightarrow> (case read_file env f w of Inl err \<Rightarrow> Inl err | Inr b \<Rightarrow> Inr (Some b)))"

definition get_grpc_server :: "pyenv \<Rightarrow> server_conf \<Rightarrow> world \<Rightarrow> pyexc + grpc_server" where
  "get_grpc_server env c w =
     (let max_workers = nested_max (workers c);
          max_concurrent = nested_max (concurrent c);
          max_message_length =
            (case message c of Some (Some (Some n)) \<Rightarrow> n | _ \<Rightarrow> 4 * 1024 * 1024)
      in case read_if_configured env (ca c) w of
           Inl err \<Rightarrow> Inl err
         | Inr ssl_ca \<Rightarrow>
             (case read_if_configured env (key c) w of
                Inl err \<Rightarrow> Inl err
              | Inr ssl_key \<Rightarrow>
                  (case read_if_configured env (cert c) w of
                     Inl err \<Rightarrow> Inl err
                   | Inr ssl_cert \<Rightarrow>
                       (case address c of
                          None \<Rightarrow> Inl (PyExc ''KeyError'' ''address'')
                        | Some a \<Rightarrow>
                            Inr \<lparr>max_workers = max_workers,
                                 max_message_length = max_message_length,
                                 maximum_concurrent_rpcs = max_concurrent,
                                 server_port =
                                   (case (ssl_key, ssl_cert) of
                                      (Some k, Some ct) \<Rightarrow>
                                        SecurePort a k ct ssl_ca (ssl_ca \<noteq> None)
                                    | _ \<Rightarrow> InsecurePort a),
                                 started = False\<rparr>))))"

section \<open>\<^verbatim>\<open>get_logger\<close>\<close>

definition get_logger :: "pyenv \<Rightarrow> config \<Rightarrow> py_logger effect" where
  "get_logger env c w =
     (case cfg_name c of
        None \<Rightarrow> (Inl (PyExc ''KeyError'' ''name''), w)
      | Some n \<Rightarrow>
          (let logger = \<lparr>logger_name = n, logger_level = None, handlers = []\<rparr> in
           case cfg_logger c of
             None \<Rightarrow> (Inr logger, w)
           | Some lc \<Rightarrow>
               (case path lc of
                  None \<Rightarrow> (Inr logger, w)
                | Some p \<Rightarrow>
                    (let fname = os_path_abspath env p w in
                     case os_makedirs env (os_path_dirname env fname) w of
                       Inl err \<Rightarrow> (Inl err, w)
                     | Inr w1 \<Rightarrow>
                         (let lvl =
                                (if level lc = Some ''debug'' then DEBUG
                                 else if level lc = Some ''warn'' then WARNING
                                 else if level lc = Some ''error'' then ERROR
                                 else INFO);
                              ival = (case nested_max (age lc) of Some n \<Rightarrow> n | None \<Rightarrow> 15);
                              bcount = (case nested_max (backup lc) of Some n \<Rightarrow> n | None \<Rightarrow> 15)
                          in case open_log_file env fname w1 of
                               Inl err \<Rightarrow> (Inl err, w1)
                             | Inr w2 \<Rightarrow>
                                 (Inr (logger\<lparr>logger_level := Some lvl,
                                              handlers :=
                                                [\<lparr>filename = fname, handler_level = lvl,
                                                  interval = ival, backupCount = bcount\<rparr>]\<rparr>),
                                  w2))))))"

section \<open>\<^verbatim>\<open>mo.Load\<close>, \<^verbatim>\<open>mo.Start\<close> and the entry point\<close>

text \<open>Lines 36--43: the two overrides from \<^verbatim>\<open>os.environ\<close>.\<close>

definition overwrite_from_env :: "(string \<rightharpoonup> string) \<Rightarrow> config \<Rightarrow> config" where
  "overwrite_from_env environ c =
     (let c1 = (case environ ''AIICY_SERVICE_INSTANCE_NAME'' of
                  Some n \<Rightarrow> c\<lparr>cfg_name := Some n\<rparr>
                | None \<Rightarrow> c)
      in case environ ''AIICY_SERVICE_INSTANCE_ADDRESS'' of
           Some a \<Rightarrow>
             (let s = (case cfg_server c1 of
                         None \<Rightarrow> \<lparr>address = None, workers = None, concurrent = None,
                                  message = None, ca = None, key = None, cert = None,
                                  timeout = None\<rparr>
                       | Some s \<Rightarrow> s)
              in c1\<lparr>cfg_server := Some (s\<lparr>address := Some a\<rparr>)\<rparr>)
         | None \<Rightarrow> c1)"

text \<open>Lines 45--52: the four checks, in the order of the source.\<close>

definition check_config :: "config \<Rightarrow> pyexc option" where
  "check_config c =
     (if cfg_name c = None then Some (PyExc ''Exception'' ''config invalid, missing name'')
      else case cfg_server c of
             None \<Rightarrow> Some (PyExc ''Exception'' ''config invalid, missing server'')
           | Some s \<Rightarrow>
               (if address s = None
                then Some (PyExc ''Exception'' ''config invalid, missing server address'')
                else if cfg_functions c = None
                then Some (PyExc ''Exception'' ''config invalid, missing functions'')
                else None))"

definition Load :: "pyenv \<Rightarrow> (string \<rightharpoonup> string) \<Rightarrow> string \<Rightarrow> mo effect" where
  "Load env environ conf w =
     (case yaml_load env conf w of
        Inl err \<Rightarrow> (Inl err, w)
      | Inr c0 \<Rightarrow>
          (let c = overwrite_from_env environ c0 in
           case check_config c of
             Some err \<Rightarrow> (Inl err, w)
           | None \<Rightarrow>
               (case get_logger env c w of
                  (Inl err, w1) \<Rightarrow> (Inl err, w1)
                | (Inr lg, w1) \<Rightarrow>
                    (case cfg_functions c of
                       None \<Rightarrow> (Inl (PyExc ''KeyError'' ''functions''), w1)
                     | Some fcs \<Rightarrow>
                         (case load_modules env fcs w1 of
                            (Inl err, w2) \<Rightarrow> (Inl err, w2)
                          | (Inr ms, w2) \<Rightarrow>
                              (case cfg_server c of
                                 None \<Rightarrow> (Inl (PyExc ''KeyError'' ''server''), w2)
                               | Some sc \<Rightarrow>
                                   (case get_grpc_server env sc w2 of
                                      Inl err \<Rightarrow> (Inl err, w2)
                                    | Inr srv \<Rightarrow>
                                        (Inr \<lparr>self_config = c, self_log = lg,
                                              self_modules = ms, self_server = srv\<rparr>,
                                         w2))))))))"



section \<open>Observations used by the properties\<close>

fun tls_enabled :: "port \<Rightarrow> bool" where
  "tls_enabled (InsecurePort a) = False"
| "tls_enabled (SecurePort a k ct root_ca req_auth) = True"

fun require_client_auth :: "port \<Rightarrow> bool" where
  "require_client_auth (InsecurePort a) = False"
| "require_client_auth (SecurePort a k ct root_ca req_auth) = req_auth"

fun port_address :: "port \<Rightarrow> string" where
  "port_address (InsecurePort a) = a"
| "port_address (SecurePort a k ct root_ca req_auth) = a"

definition missing_field :: "funcspec \<Rightarrow> bool" where
  "missing_field fc = (fc_name fc = None \<or> fc_handler fc = None \<or> fc_codedir fc = None)"

text \<open>User code that leaves \<^verbatim>\<open>sys.path\<close> as it found it.\<close>

definition keeps_sys_path :: "'a effect \<Rightarrow> bool" where
  "keeps_sys_path f = (\<forall>w. sys_path (snd (f w)) = sys_path w)"

definition loaded_code_keeps_sys_path :: "pyenv \<Rightarrow> bool" where
  "loaded_code_keeps_sys_path env =
     (\<forall>hn file w. sys_path (snd (load_module env hn file w)) = sys_path w \<and>
        (\<forall>pm cls cd. fst (load_module env hn file w) = Inr pm \<and> pm hn = Some cls
            \<longrightarrow> keeps_sys_path (cls cd)))"

text \<open>
  User code that neither creates nor removes nor renames a directory (it may change the
  working directory).
\<close>

definition loaded_code_keeps_dirs :: "pyenv \<Rightarrow> bool" where
  "loaded_code_keeps_dirs env =
     (\<forall>hn file w. realdir (snd (load_module env hn file w)) = realdir w \<and>
        (\<forall>pm cls cd v. fst (load_module env hn file w) = Inr pm \<and> pm hn = Some cls
            \<longrightarrow> realdir (snd (cls cd v)) = realdir v))"

section \<open>A small deployment, for concrete runs\<close>

text \<open>
  Handlers: one returns its message, one raises, one returns \<^verbatim>\<open>None\<close>, one returns
  bytes, one returns an object \<^verbatim>\<open>json.dumps\<close> rejects, and one changes directory
  before returning its message.
\<close>

definition echo_handler :: "pyval \<Rightarrow> call_ctx \<Rightarrow> pyval effect" where
  "echo_handler msg ctx w = (Inr msg, w)"

definition boom_handler :: "pyval \<Rightarrow> call_ctx \<Rightarrow> pyval effect" where
  "boom_handler msg ctx w = (Inl (PyExc ''RuntimeError'' ''boom''), w)"

definition none_handler :: "pyval \<Rightarrow> call_ctx \<Rightarrow> pyval effect" where
  "none_handler msg ctx w = (Inr PNone, w)"

definition raw_handler :: "pyval \<Rightarrow> call_ctx \<Rightarrow> pyval effect" where
  "raw_handler msg ctx w = (Inr (PBytes ''raw''), w)"

definition obj_handler :: "pyval \<Rightarrow> call_ctx \<Rightarrow> pyval effect" where
  "obj_handler msg ctx w = (Inr (PObj ''set''), w)"

definition roam_handler :: "pyval \<Rightarrow> call_ctx \<Rightarrow> pyval effect" where
  "roam_handler msg ctx w = (Inr msg, w\<lparr>cwd := ''/tmp''\<rparr>)"

definition new_instance :: "(pyval \<Rightarrow> call_ctx \<Rightarrow> pyval effect) \<Rightarrow> string \<Rightarrow> pymodule effect" where
  "new_instance h cd w = (Inr \<lparr>get_codedir = cd, handler = h\<rparr>, w)"

text \<open>
  The directories \<^verbatim>\<open>/srv\<close>, \<^verbatim>\<open>/srv/echo\<close>, \<^verbatim>\<open>/srv/boom\<close> and \<^verbatim>\<open>/tmp\<close>; the
  process starts in \<^verbatim>\<open>/srv\<close>.
\<close>

definition w0 :: world where
  "w0 = \<lparr>cwd = ''/srv'',
         realdir = (\<lambda>p. if p \<in> set [''/srv'', ''/srv/echo'', ''/srv/boom'', ''/tmp'']
                         then Some p else None),
         sys_path = [],
         logged = []\<rparr>"

text \<open>
  The values of the \<^verbatim>\<open>json\<close> module on the few inputs the runs below use, one
  \<^verbatim>\<open>index.py\<close> in each code directory, three PEM files, and four configuration files.
\<close>

definition json_loads0 :: "bytes \<Rightarrow> pyexc + pyval" where
  "json_loads0 b =
     (if b = ''1'' then Inr (PInt 1)
      else if b = ''null'' then Inr PNone
      else if b = ''{}'' then Inr (PDict [])
      else Inl (PyExc ''JSONDecodeError'' ''Expecting value''))"

definition json_dumps0 :: "pyval \<Rightarrow> pyexc + string" where
  "json_dumps0 v =
     (if v = PInt 1 then Inr ''1''
      else if v = PNone then Inr ''null''
      else if v = PDict [] then Inr ''{}''
      else Inl (PyExc ''TypeError'' ''Object is not JSON serializable''))"

definition load_module0 :: "string \<Rightarrow> string \<Rightarrow> py_mod effect" where
  "load_module0 hn file w =
     (if file = ''index.py'' \<and> cwd w = ''/srv/echo''
      then (Inr [''Echo'' \<mapsto> new_instance echo_handler, ''Roam'' \<mapsto> new_instance roam_handler], w)
      else if file = ''index.py'' \<and> cwd w = ''/srv/boom''
      then (Inr [''Boom'' \<mapsto> new_instance boom_handler], w)
      else (Inl (PyExc ''FileNotFoundError'' file), w))"

definition read_file0 :: "string \<Rightarrow> world \<Rightarrow> pyexc + bytes" where
  "read_file0 p w =
     (if p = ''ca.pem'' then Inr ''CA''
      else if p = ''key.pem'' then Inr ''KEY''
      else if p = ''cert.pem'' then Inr ''CERT''
      else Inl (PyExc ''FileNotFoundError'' p))"

definition fc_echo :: funcspec where
  "fc_echo = \<lparr>fc_name = Some ''echo'', fc_handler = Some ''index.Echo'',
              fc_codedir = Some ''echo''\<rparr>"

definition fc_boom :: funcspec where
  "fc_boom = \<lparr>fc_name = Some ''boom'', fc_handler = Some ''index.Boom'',
              fc_codedir = Some ''boom''\<rparr>"

definition plain_server :: server_conf where
  "plain_server = \<lparr>address = Some ''0.0.0.0:50051'', workers = None, concurrent = None,
                   message = None, ca = None, key = None, cert = None, timeout = None\<rparr>"

definition conf_service :: config where
  "conf_service = \<lparr>cfg_name = Some ''svc'', cfg_server = Some plain_server,
                   cfg_functions = Some [fc_echo, fc_boom], cfg_logger = None\<rparr>"

text \<open>Two entries named \<^verbatim>\<open>echo\<close>: the second one is the \<^verbatim>\<open>Boom\<close> class.\<close>

definition conf_dup :: config where
  "conf_dup = \<lparr>cfg_name = Some ''svc'', cfg_server = Some plain_server,
               cfg_functions = Some [fc_echo, fc_boom\<lparr>fc_name := Some ''echo''\<rparr>],
               cfg_logger = None\<rparr>"

text \<open>A file with no \<^verbatim>\<open>name\<close> and no \<^verbatim>\<open>server\<close>.\<close>

definition conf_bare :: config where
  "conf_bare = \<lparr>cfg_name = None, cfg_server = None,
                cfg_functions = Some [fc_echo], cfg_logger = None\<rparr>"

text \<open>The second entry has no \<^verbatim>\<open>codedir\<close>.\<close>

definition conf_incomplete :: config where
  "conf_incomplete = \<lparr>cfg_name = Some ''svc'', cfg_server = Some plain_server,
                      cfg_functions = Some [fc_echo, fc_boom\<lparr>fc_codedir := None\<rparr>],
                      cfg_logger = None\<rparr>"

definition yaml_load0 :: "string \<Rightarrow> world \<Rightarrow> pyexc + config" where
  "yaml_load0 p w =
     (if p = ''service.yml'' then Inr conf_service
      else if p = ''dup.yml'' then Inr conf_dup
      else if p = ''bare.yml'' then Inr conf_bare
      else if p = ''incomplete.yml'' then Inr conf_incomplete
      else Inl (PyExc ''FileNotFoundError'' p))"

definition env0 :: pyenv where
  "env0 = \<lparr>json_loads = json_loads0,
           json_dumps = json_dumps0,
           load_module = load_module0,
           read_file = read_file0,
           yaml_load = yaml_load0,
           os_path_abspath = (\<lambda>p w. os_path_join (cwd w) p),
           os_path_dirname = (\<lambda>p. rev (drop 1 (dropWhile (\<lambda>c. c \<noteq> CHR ''/'') (rev p)))),
           os_makedirs = (\<lambda>p w. Inr (w\<lparr>realdir := (realdir w)(p \<mapsto> p)\<rparr>)),
           open_log_file = (\<lambda>p w. Inr w)\<rparr>"

definition inst :: "(pyval \<Rightarrow> call_ctx \<Rightarrow> pyval effect) \<Rightarrow> string \<Rightarrow> pymodule" where
  "inst h cd = \<lparr>get_codedir = cd, handler = h\<rparr>"

definition mo0 :: mo where
  "mo0 = \<lparr>self_config = conf_service,
          self_log = \<lparr>logger_name = ''svc'', logger_level = None, handlers = []\<rparr>,
          self_modules = [''echo'' \<mapsto> inst echo_handler ''echo'',
                          ''boom'' \<mapsto> inst boom_handler ''boom'',
                          ''none'' \<mapsto> inst none_handler ''echo'',
                          ''raw'' \<mapsto> inst raw_handler ''echo'',
                          ''obj'' \<mapsto> inst obj_handler ''echo'',
                          ''roam'' \<mapsto> inst roam_handler ''echo''],
          self_server = \<lparr>max_workers = None, max_message_length = 4 * 1024 * 1024,
                          maximum_concurrent_rpcs = None,
                          server_port = InsecurePort ''0.0.0.0:50051'', started = True\<rparr>\<rparr>"

definition req0 :: "string \<Rightarrow> bytes \<Rightarrow> request" where
  "req0 fn p = \<lparr>FunctionName = fn, Payload = p, QOS = 1, Topic = ''t'',
               Timestamp = 0, FunctionInvokeID = ''id-1''\<rparr>"

section \<open>How a call runs\<close>

text \<open>
  The paths through \<^verbatim>\<open>Call\<close> once the function is found: the first
  \<^verbatim>\<open>chdir\<close> raises; the handler raises; the handler returns and the \<^verbatim>\<open>chdir\<close>
  back raises; the handler returns and the directory is restored.
\<close>

lemma Call_chdir_fails:
  assumes "self_modules self (FunctionName req) = Some m"
    and "os_chdir (os_path_join (cwd w) (get_codedir m)) w = Inl err"
  shows "Call env self req w = (Inl (PyExcWrap ''[UserCodeInvoke] '' err), log_error err w)"
  using assms by (simp add: Call_def invoke_in_codedir_def os_getcwd_def Let_def)

lemma Call_handler_raises:
  assumes "self_modules self (FunctionName req) = Some m"
    and "os_chdir (os_path_join (cwd w) (get_codedir m)) w = Inr w1"
    and "handler m (decode_payload env (Payload req)) (make_ctx req) w1 = (Inl err, w2)"
  shows "Call env self req w = (Inl (PyExcWrap ''[UserCodeInvoke] '' err), log_error err w2)"
  using assms by (simp add: Call_def invoke_in_codedir_def os_getcwd_def Let_def)

lemma Call_restore_fails:
  assumes "self_modules self (FunctionName req) = Some m"
    and "os_chdir (os_path_join (cwd w) (get_codedir m)) w = Inr w1"
    and "handler m (decode_payload env (Payload req)) (make_ctx req) w1 = (Inr r, w2)"
    and "os_chdir (cwd w) w2 = Inl err"
  shows "Call env self req w = (Inl (PyExcWrap ''[UserCodeInvoke] '' err), log_error err w2)"
  using assms by (simp add: Call_def invoke_in_codedir_def os_getcwd_def Let_def)

lemma Call_handler_returns:
  assumes "self_modules self (FunctionName req) = Some m"
    and "os_chdir (os_path_join (cwd w) (get_codedir m)) w = Inr w1"
    and "handler m (decode_payload env (Payload req)) (make_ctx req) w1 = (Inr r, w2)"
    and "os_chdir (cwd w) w2 = Inr w3"
  shows "Call env self req w = encode_result env req r w3"
  using assms by (simp add: Call_def invoke_in_codedir_def os_getcwd_def Let_def)

lemma cwd_encode_result: "cwd (snd (encode_result env req r w)) = cwd w"
  by (simp add: encode_result_def log_error_def split: pyval.splits sum.splits)

section \<open>Facts about the small deployment\<close>

lemma lookup_echo: "self_modules mo0 (FunctionName (req0 ''echo'' p)) = Some (inst echo_handler ''echo'')"
  by (simp add: mo0_def req0_def)

lemma chdir_echo:
  "os_chdir (os_path_join (cwd w0) (get_codedir (inst h ''echo''))) w0 = Inr (w0\<lparr>cwd := ''/srv/echo''\<rparr>)"
  by (simp add: os_path_join_def inst_def os_chdir_def w0_def)

lemma chdir_back: "os_chdir (cwd w0) (w0\<lparr>cwd := d\<rparr>) = Inr w0"
  by (simp add: os_chdir_def w0_def)

lemma handler_inst: "handler (inst h cd) = h"
  by (simp add: inst_def)

lemma lookup_mo0:
  "self_modules mo0 (FunctionName (req0 ''none'' p)) = Some (inst none_handler ''echo'')"
  "self_modules mo0 (FunctionName (req0 ''raw'' p)) = Some (inst raw_handler ''echo'')"
  "self_modules mo0 (FunctionName (req0 ''obj'' p)) = Some (inst obj_handler ''echo'')"
  "self_modules mo0 (FunctionName (req0 ''roam'' p)) = Some (inst roam_handler ''echo'')"
  by (simp_all add: mo0_def req0_def)

section \<open>Function lookup\<close>

text \<open>
  C4. A request whose function name is not a key of the registry makes \<^verbatim>\<open>Call\<close> raise
  \<^verbatim>\<open>Exception('function not found')\<close>. Nothing has run by then: the world, with its
  working directory and its log, is the one the call started in, whatever the handlers
  of the registry are. The exception ends this call only; the servicer object is not
  changed by \<^verbatim>\<open>Call\<close>.
\<close>

theorem Call_function_not_found:
  "self_modules self (FunctionName req) = None \<Longrightarrow>
   Call env self req w = (Inl (PyExc ''Exception'' ''function not found''), w)"
  by (simp add: Call_def)

theorem Call_function_not_found_witness:
  "self_modules mo0 (FunctionName (req0 ''nope'' ''1'')) = None \<and>
   Call env0 mo0 (req0 ''nope'' ''1'') w0 = (Inl (PyExc ''Exception'' ''function not found''), w0)"
proof -
  have h: "self_modules mo0 (FunctionName (req0 ''nope'' ''1'')) = None"
    by (simp add: mo0_def req0_def)
  show ?thesis using h Call_function_not_found [OF h, of env0 w0] by simp
qed

section \<open>The working directory across a call\<close>

text \<open>
  When the handler returns and the directory the call started in is still there under
  its name, the call ends in that directory, whether or not the result can be encoded.
\<close>

lemma Call_success_restores_cwd:
  assumes "self_modules self (FunctionName req) = Some m"
    and "os_chdir (os_path_join (cwd w) (get_codedir m)) w = Inr w1"
    and "handler m (decode_payload env (Payload req)) (make_ctx req) w1 = (Inr r, w2)"
    and "realdir w2 (cwd w) = Some (cwd w)"
  shows "cwd (snd (Call env self req w)) = cwd w"
proof -
  have "os_chdir (cwd w) w2 = Inr (w2\<lparr>cwd := cwd w\<rparr>)"
    using assms(4) by (simp add: os_chdir_def)
  from Call_handler_returns [OF assms(1,2,3) this]
  show ?thesis by (simp add: cwd_encode_result)
qed

text \<open>
  So it is for a handler that changes directory itself: \<^verbatim>\<open>roam\<close> goes to \<^verbatim>\<open>/tmp\<close>
  and returns its message, and the call ends in \<^verbatim>\<open>/srv\<close>, where it started.
\<close>

lemma Call_roam_restores_cwd:
  "cwd (snd (Call env0 mo0 (req0 ''roam'' ''1'') w0)) = cwd w0"
proof (rule Call_success_restores_cwd [OF lookup_mo0(4) chdir_echo])
  show "handler (inst roam_handler ''echo'') (decode_payload env0 (Payload (req0 ''roam'' ''1'')))
          (make_ctx (req0 ''roam'' ''1'')) (w0\<lparr>cwd := ''/srv/echo''\<rparr>) =
        (Inr (decode_payload env0 (Payload (req0 ''roam'' ''1''))), w0\<lparr>cwd := ''/tmp''\<rparr>)"
    by (simp add: handler_inst roam_handler_def)
  show "realdir (w0\<lparr>cwd := ''/tmp''\<rparr>) (cwd w0) = Some (cwd w0)"
    by (simp add: w0_def)
qed

text \<open>
  When the handler raises, the \<^verbatim>\<open>except\<close> clause logs and re-raises: the call ends in
  the directory the handler was in when it raised.
\<close>

lemma Call_raise_keeps_handler_cwd:
  assumes "self_modules self (FunctionName req) = Some m"
    and "os_chdir (os_path_join (cwd w) (get_codedir m)) w = Inr w1"
    and "handler m (decode_payload env (Payload req)) (make_ctx req) w1 = (Inl err, w2)"
  shows "cwd (snd (Call env self req w)) = cwd w2"
  using Call_handler_raises [OF assms] by (simp add: log_error_def)

text \<open>
  C1. The claim is that the working directory after every call, also one whose handler
  raises, is the directory before the call. The run below starts in \<^verbatim>\<open>/srv\<close> and
  calls the function \<^verbatim>\<open>boom\<close>, whose handler raises: the call fails with the wrapped
  exception and the process is left in \<^verbatim>\<open>/srv/boom\<close>. A call of \<^verbatim>\<open>echo\<close> right
  after it joins its code directory to that directory and fails on
  \<^verbatim>\<open>/srv/boom/echo\<close>, before its handler runs.
\<close>

theorem Call_boom_leaves_codedir:
  "cwd w0 = ''/srv'' \<and>
   fst (Call env0 mo0 (req0 ''boom'' ''1'') w0) =
     Inl (PyExcWrap ''[UserCodeInvoke] '' (PyExc ''RuntimeError'' ''boom'')) \<and>
   cwd (snd (Call env0 mo0 (req0 ''boom'' ''1'') w0)) = ''/srv/boom'' \<and>
   fst (Call env0 mo0 (req0 ''echo'' ''1'') (snd (Call env0 mo0 (req0 ''boom'' ''1'') w0))) =
     Inl (PyExcWrap ''[UserCodeInvoke] '' (PyExc ''FileNotFoundError'' ''/srv/boom/echo''))"
proof -
  have m: "self_modules mo0 (FunctionName (req0 ''boom'' ''1'')) = Some (inst boom_handler ''boom'')"
    by (simp add: mo0_def req0_def)
  have c: "os_chdir (os_path_join (cwd w0) (get_codedir (inst boom_handler ''boom''))) w0
             = Inr (w0\<lparr>cwd := ''/srv/boom''\<rparr>)"
    by (simp add: os_path_join_def inst_def os_chdir_def w0_def)
  have h: "handler (inst boom_handler ''boom'') (decode_payload env0 (Payload (req0 ''boom'' ''1'')))
             (make_ctx (req0 ''boom'' ''1'')) (w0\<lparr>cwd := ''/srv/boom''\<rparr>)
           = (Inl (PyExc ''RuntimeError'' ''boom''), w0\<lparr>cwd := ''/srv/boom''\<rparr>)"
    by (simp add: inst_def boom_handler_def)
  note r = Call_handler_raises [OF m c h]
  have m2: "self_modules mo0 (FunctionName (req0 ''echo'' ''1'')) = Some (inst echo_handler ''echo'')"
    by (simp add: mo0_def req0_def)
  have c2: "os_chdir (os_path_join (cwd (log_error (PyExc ''RuntimeError'' ''boom'') (w0\<lparr>cwd := ''/srv/boom''\<rparr>)))
               (get_codedir (inst echo_handler ''echo'')))
              (log_error (PyExc ''RuntimeError'' ''boom'') (w0\<lparr>cwd := ''/srv/boom''\<rparr>))
            = Inl (PyExc ''FileNotFoundError'' ''/srv/boom/echo'')"
    by (simp add: os_path_join_def inst_def log_error_def os_chdir_def w0_def)
  show ?thesis
    using r Call_chdir_fails [OF m2 c2, of env0] by (simp add: w0_def log_error_def)
qed

section \<open>Decoding the payload\<close>

text \<open>
  C5. Decoding the payload never fails. For a function that is registered and whose code
  directory can be entered: an empty payload is the empty dict; a non-empty payload that
  \<^verbatim>\<open>json.loads\<close> parses is the parsed value; a non-empty payload on which
  \<^verbatim>\<open>json.loads\<close> raises is the payload itself, as bytes. The handler is run on that
  message: when the handler, given it, returns, the call goes on to encode what the
  handler returned, and when the handler, given it, raises, the call raises the wrapped
  exception of the handler. No path of the call raises an error of the decoding.
\<close>

theorem Call_payload_decoding:
  assumes "self_modules self (FunctionName req) = Some m"
    and "os_chdir (os_path_join (cwd w) (get_codedir m)) w = Inr w1"
  shows "(Payload req = [] \<longrightarrow> decode_payload env (Payload req) = PDict []) \<and>
         (\<forall>v. Payload req \<noteq> [] \<and> json_loads env (Payload req) = Inr v
              \<longrightarrow> decode_payload env (Payload req) = v) \<and>
         (\<forall>e. Payload req \<noteq> [] \<and> json_loads env (Payload req) = Inl e
              \<longrightarrow> decode_payload env (Payload req) = PBytes (Payload req)) \<and>
         (\<forall>r w2 w3. handler m (decode_payload env (Payload req)) (make_ctx req) w1 = (Inr r, w2) \<and>
              os_chdir (cwd w) w2 = Inr w3
              \<longrightarrow> Call env self req w = encode_result env req r w3) \<and>
         (\<forall>err w2. handler m (decode_payload env (Payload req)) (make_ctx req) w1 = (Inl err, w2)
              \<longrightarrow> Call env self req w =
                    (Inl (PyExcWrap ''[UserCodeInvoke] '' err), log_error err w2))"
proof (intro conjI allI impI)
  show "decode_payload env (Payload req) = PDict []" if "Payload req = []"
    using that by (simp add: decode_payload_def)
  show "decode_payload env (Payload req) = v"
    if "Payload req \<noteq> [] \<and> json_loads env (Payload req) = Inr v" for v
    using that by (simp add: decode_payload_def)
  show "decode_payload env (Payload req) = PBytes (Payload req)"
    if "Payload req \<noteq> [] \<and> json_loads env (Payload req) = Inl e" for e
    using that by (simp add: decode_payload_def)
  show "Call env self req w = encode_result env req r w3"
    if "handler m (decode_payload env (Payload req)) (make_ctx req) w1 = (Inr r, w2) \<and>
        os_chdir (cwd w) w2 = Inr w3" for r w2 w3
    using that Call_handler_returns [OF assms] by blast
  show "Call env self req w = (Inl (PyExcWrap ''[UserCodeInvoke] '' err), log_error err w2)"
    if "handler m (decode_payload env (Payload req)) (make_ctx req) w1 = (Inl err, w2)" for err w2
    using that Call_handler_raises [OF assms] by blast
qed

theorem Call_payload_decoding_witness:
  "decode_payload env0 (Payload (req0 ''echo'' [])) = PDict [] \<and>
   decode_payload env0 (Payload (req0 ''echo'' ''1'')) = PInt 1 \<and>
   decode_payload env0 (Payload (req0 ''echo'' ''abc'')) = PBytes ''abc'' \<and>
   Call env0 mo0 (req0 ''echo'' ''abc'') w0 = (Inr (req0 ''echo'' ''abc''), w0) \<and>
   Call env0 mo0 (req0 ''boom'' ''abc'') w0 =
     (Inl (PyExcWrap ''[UserCodeInvoke] '' (PyExc ''RuntimeError'' ''boom'')),
      log_error (PyExc ''RuntimeError'' ''boom'') (w0\<lparr>cwd := ''/srv/boom''\<rparr>))"
proof -
  note t = Call_payload_decoding [OF lookup_echo chdir_echo, of _ env0]
  have 1: "decode_payload env0 (Payload (req0 ''echo'' [])) = PDict []"
    using t [of "[]"] by (simp add: req0_def)
  have 2: "decode_payload env0 (Payload (req0 ''echo'' ''1'')) = PInt 1"
    using t [of "''1''"] by (simp add: req0_def env0_def json_loads0_def)
  have p: "Payload (req0 ''echo'' ''abc'') \<noteq> [] \<and>
           json_loads env0 (Payload (req0 ''echo'' ''abc'')) = Inl (PyExc ''JSONDecodeError'' ''Expecting value'')"
    by (simp add: req0_def env0_def json_loads0_def)
  have 3: "decode_payload env0 (Payload (req0 ''echo'' ''abc'')) = PBytes ''abc''"
    using t [of "''abc''"] p by (simp add: req0_def)
  have "handler (inst echo_handler ''echo'') (decode_payload env0 (Payload (req0 ''echo'' ''abc'')))
          (make_ctx (req0 ''echo'' ''abc'')) (w0\<lparr>cwd := ''/srv/echo''\<rparr>)
        = (Inr (PBytes ''abc''), w0\<lparr>cwd := ''/srv/echo''\<rparr>) \<and>
        os_chdir (cwd w0) (w0\<lparr>cwd := ''/srv/echo''\<rparr>) = Inr w0"
    by (simp add: 3 handler_inst echo_handler_def chdir_back)
  with t [of "''abc''"] 
  have "Call env0 mo0 (req0 ''echo'' ''abc'') w0 = encode_result env0 (req0 ''echo'' ''abc'') (PBytes ''abc'') w0"
    by blast
  then have 4: "Call env0 mo0 (req0 ''echo'' ''abc'') w0 = (Inr (req0 ''echo'' ''abc''), w0)"
    by (simp add: encode_result_def req0_def)
  have lb: "self_modules mo0 (FunctionName (req0 ''boom'' ''abc'')) = Some (inst boom_handler ''boom'')"
    by (simp add: mo0_def req0_def)
  have cb: "os_chdir (os_path_join (cwd w0) (get_codedir (inst boom_handler ''boom''))) w0
             = Inr (w0\<lparr>cwd := ''/srv/boom''\<rparr>)"
    by (simp add: os_path_join_def inst_def os_chdir_def w0_def)
  have "handler (inst boom_handler ''boom'') (decode_payload env0 (Payload (req0 ''boom'' ''abc'')))
          (make_ctx (req0 ''boom'' ''abc'')) (w0\<lparr>cwd := ''/srv/boom''\<rparr>)
        = (Inl (PyExc ''RuntimeError'' ''boom''), w0\<lparr>cwd := ''/srv/boom''\<rparr>)"
    by (simp add: handler_inst boom_handler_def)
  with Call_payload_decoding [OF lb cb, of env0]
  have 5: "Call env0 mo0 (req0 ''boom'' ''abc'') w0 =
     (Inl (PyExcWrap ''[UserCodeInvoke] '' (PyExc ''RuntimeError'' ''boom'')),
      log_error (PyExc ''RuntimeError'' ''boom'') (w0\<lparr>cwd := ''/srv/boom''\<rparr>))"
    by blast
  show ?thesis using 1 2 3 4 5 by simp
qed


section \<open>Encoding the result\<close>

text \<open>
  C6. When the handler has returned \<open>r\<close> and the directory has been restored:
  \<^verbatim>\<open>None\<close> gives the empty payload; bytes are the payload as they are; any other
  value is serialised by \<^verbatim>\<open>json.dumps\<close> and the text encoded as UTF-8 is the payload;
  and when \<^verbatim>\<open>json.dumps\<close> raises, the call logs the error and raises
  \<^verbatim>\<open>Exception("[UserCodeReturn] ", err)\<close>, which is not the
  \<^verbatim>\<open>Exception("[UserCodeInvoke] ", err)\<close> raised for an error of the handler.
  The other fields of the message are those of the request.
\<close>

theorem Call_encodes_result:
  assumes "self_modules self (FunctionName req) = Some m"
    and "os_chdir (os_path_join (cwd w) (get_codedir m)) w = Inr w1"
    and "handler m (decode_payload env (Payload req)) (make_ctx req) w1 = (Inr r, w2)"
    and "os_chdir (cwd w) w2 = Inr w3"
  shows "(r = PNone \<longrightarrow> Call env self req w = (Inr (req\<lparr>Payload := []\<rparr>), w3)) \<and>
         (\<forall>b. r = PBytes b \<longrightarrow> Call env self req w = (Inr (req\<lparr>Payload := b\<rparr>), w3)) \<and>
         (r \<noteq> PNone \<and> (\<forall>b. r \<noteq> PBytes b) \<longrightarrow>
            (\<forall>s. json_dumps env r = Inr s
                 \<longrightarrow> Call env self req w = (Inr (req\<lparr>Payload := encode_utf8 s\<rparr>), w3)) \<and>
            (\<forall>e. json_dumps env r = Inl e
                 \<longrightarrow> Call env self req w =
                       (Inl (PyExcWrap ''[UserCodeReturn] '' e), log_error e w3) \<and>
                     (\<forall>e'. fst (Call env self req w) \<noteq> Inl (PyExcWrap ''[UserCodeInvoke] '' e'))))"
proof -
  have c: "Call env self req w = encode_result env req r w3"
    by (rule Call_handler_returns [OF assms])
  show ?thesis
    unfolding c by (cases r) (simp_all add: encode_result_def)
qed

theorem Call_encodes_result_witness:
  "Call env0 mo0 (req0 ''none'' ''1'') w0 = (Inr (req0 ''none'' []), w0) \<and>
   Call env0 mo0 (req0 ''raw'' ''1'') w0 = (Inr (req0 ''raw'' ''raw''), w0) \<and>
   Call env0 mo0 (req0 ''echo'' []) w0 = (Inr (req0 ''echo'' ''{}''), w0) \<and>
   Call env0 mo0 (req0 ''obj'' ''1'') w0 =
     (Inl (PyExcWrap ''[UserCodeReturn] '' (PyExc ''TypeError'' ''Object is not JSON serializable'')),
      log_error (PyExc ''TypeError'' ''Object is not JSON serializable'') w0)"
proof -
  have 1: "Call env0 mo0 (req0 ''none'' ''1'') w0 = (Inr (req0 ''none'' []), w0)"
    using Call_encodes_result [OF lookup_mo0(1) chdir_echo _ chdir_back, of env0 "''1''" PNone "''/srv/echo''"]
    by (simp add: handler_inst none_handler_def req0_def)
  have 2: "Call env0 mo0 (req0 ''raw'' ''1'') w0 = (Inr (req0 ''raw'' ''raw''), w0)"
    using Call_encodes_result [OF lookup_mo0(2) chdir_echo _ chdir_back, of env0 "''1''" "PBytes ''raw''" "''/srv/echo''"]
    by (simp add: handler_inst raw_handler_def req0_def)
  have d: "decode_payload env0 (Payload (req0 ''echo'' [])) = PDict []"
    by (simp add: decode_payload_def req0_def)
  have 3: "Call env0 mo0 (req0 ''echo'' []) w0 = (Inr (req0 ''echo'' ''{}''), w0)"
    using Call_encodes_result [OF lookup_echo chdir_echo _ chdir_back, of env0 "[]" "PDict []" "''/srv/echo''"]
    by (simp add: handler_inst echo_handler_def d) (simp add: req0_def env0_def json_dumps0_def encode_utf8_def)
  have 4: "Call env0 mo0 (req0 ''obj'' ''1'') w0 =
     (Inl (PyExcWrap ''[UserCodeReturn] '' (PyExc ''TypeError'' ''Object is not JSON serializable'')),
      log_error (PyExc ''TypeError'' ''Object is not JSON serializable'') w0)"
    using Call_encodes_result [OF lookup_mo0(3) chdir_echo _ chdir_back, of env0 "''1''" "PObj ''set''" "''/srv/echo''"]
    by (simp add: handler_inst obj_handler_def) (simp add: env0_def json_dumps0_def)
  show ?thesis using 1 2 3 4 by simp
qed





section \<open>Loading the registry\<close>

text \<open>
  One pass of the loop: an entry that lacks a key raises before anything is done; an
  entry that loads leaves the process in the directory that the path of the starting
  directory names; and, when the loaded code leaves \<^verbatim>\<open>sys.path\<close> alone, the pass
  appends the code directory, whether or not the rest of the pass raises.
\<close>

lemma os_chdir_sys_path: "os_chdir p w = Inr w' \<Longrightarrow> sys_path w' = sys_path w"
  by (auto simp: os_chdir_def split: option.splits)

lemma os_chdir_realdir: "os_chdir p w = Inr w' \<Longrightarrow> realdir w' = realdir w \<and> realdir w p = Some (cwd w')"
  by (auto simp: os_chdir_def split: option.splits)

lemma load_function_missing:
  "missing_field fc \<Longrightarrow>
   load_function env fc w =
     (Inl (PyExc ''Exception'' ''config invalid, missing function name, handler or codedir''), w)"
  by (auto simp: missing_field_def load_function_def split: option.splits)

lemma load_function_restores:
  "load_function env fc w = (Inr x, w') \<Longrightarrow> realdir w' (cwd w) = Some (cwd w')"
  by (auto simp: load_function_def Let_def os_getcwd_def 
      split: option.splits sum.splits prod.splits dest!: os_chdir_realdir)

lemma keeps_load_module:
  assumes "loaded_code_keeps_sys_path env" and "load_module env hn file w = (r, w')"
  shows "sys_path w' = sys_path w"
  using assms unfolding loaded_code_keeps_sys_path_def by (metis snd_conv)

lemma keeps_constructor:
  assumes "loaded_code_keeps_sys_path env" and "load_module env hn file w = (Inr pm, w')"
    and "pm hn = Some cls" and "cls cd v = (r, v')"
  shows "sys_path v' = sys_path v"
proof -
  have "keeps_sys_path (cls cd)"
    using assms(1,2,3) unfolding loaded_code_keeps_sys_path_def by (metis fst_conv)
  then show ?thesis using assms(4) unfolding keeps_sys_path_def by (metis snd_conv)
qed

lemma load_function_sys_path:
  assumes "loaded_code_keeps_sys_path env" and "\<not> missing_field fc"
    and "fc_codedir fc = Some cd"
  shows "sys_path (snd (load_function env fc w)) = sys_path w @ [cd]"
  using assms(2,3)
  apply (auto simp: missing_field_def load_function_def Let_def os_getcwd_def
      split: option.splits sum.splits prod.splits
      dest!: os_chdir_sys_path
      dest: keeps_load_module [OF assms(1)])
    apply (metis assms(1) keeps_load_module keeps_constructor)+
  done



lemma load_modules_loop_sys_path_ok:
  assumes "loaded_code_keeps_sys_path env"
  shows "load_modules_loop env fs c w = (Inr fs', w') \<Longrightarrow>
         sys_path w' = sys_path w @ List.map_filter fc_codedir c \<and>
         length (List.map_filter fc_codedir c) = length c"
proof (induction c arbitrary: fs w)
  case Nil
  then show ?case by (simp add: map_filter_simps)
next
  case (Cons fc c)
  from Cons.prems obtain nm module w1 where
    step: "load_function env fc w = (Inr (nm, module), w1)" and
    rest: "load_modules_loop env (fs(nm \<mapsto> module)) c w1 = (Inr fs', w')"
    by (auto split: sum.splits prod.splits)
  from step have nm: "\<not> missing_field fc"
    using load_function_missing [of fc env w] by auto
  then obtain cd where cd: "fc_codedir fc = Some cd"
    by (auto simp: missing_field_def)
  have "sys_path w1 = sys_path w @ [cd]"
    using load_function_sys_path [OF assms nm cd, of w] step by simp
  with Cons.IH [OF rest] cd show ?case
    by (simp add: map_filter_simps)
qed

lemma load_modules_loop_sys_path_grows:
  assumes "loaded_code_keeps_sys_path env"
  shows "\<exists>k\<le>length c. sys_path (snd (load_modules_loop env fs c w)) =
           sys_path w @ List.map_filter fc_codedir (take k c)"
proof (induction c arbitrary: fs w)
  case Nil
  then show ?case by (simp add: map_filter_simps)
next
  case (Cons fc c)
  show ?case
  proof (cases "missing_field fc")
    case True
    then have "sys_path (snd (load_modules_loop env fs (fc # c) w)) =
               sys_path w @ List.map_filter fc_codedir (take 0 (fc # c))"
      by (simp add: load_function_missing map_filter_simps)
    then show ?thesis by blast
  next
    case False
    then obtain cd where cd: "fc_codedir fc = Some cd"
      by (auto simp: missing_field_def)
    obtain r w1 where step: "load_function env fc w = (r, w1)"
      by (cases "load_function env fc w")
    have w1: "sys_path w1 = sys_path w @ [cd]"
      using load_function_sys_path [OF assms False cd, of w] step by simp
    show ?thesis
    proof (cases r)
      case (Inl e)
      with step w1 cd have "sys_path (snd (load_modules_loop env fs (fc # c) w)) =
               sys_path w @ List.map_filter fc_codedir (take 1 (fc # c))"
        by (simp add: map_filter_simps)
      moreover have "1 \<le> length (fc # c)" by simp
      ultimately show ?thesis by blast
    next
      case (Inr x)
      obtain nm module where x: "x = (nm, module)" by (cases x)
      from Cons.IH [of "fs(nm \<mapsto> module)" w1] obtain k where
        k: "k \<le> length c" and
        e: "sys_path (snd (load_modules_loop env (fs(nm \<mapsto> module)) c w1)) =
            sys_path w1 @ List.map_filter fc_codedir (take k c)"
        by blast
      from step Inr x e w1 cd
      have "sys_path (snd (load_modules_loop env fs (fc # c) w)) =
               sys_path w @ List.map_filter fc_codedir (take (Suc k) (fc # c))"
        by (simp add: map_filter_simps)
      moreover have "Suc k \<le> length (fc # c)" using k by simp
      ultimately show ?thesis by blast
    qed
  qed
qed

lemma Call_keeps_sys_path:
  assumes "\<And>m msg ctx. self_modules self (FunctionName req) = Some m \<Longrightarrow> keeps_sys_path (handler m msg ctx)"
  shows "sys_path (snd (Call env self req w)) = sys_path w"
proof (cases "self_modules self (FunctionName req)")
  case None
  then show ?thesis by (simp add: Call_def)
next
  case (Some m)
  have h: "sys_path v' = sys_path v" if "handler m msg ctx v = (r, v')" for msg ctx v r v'
    using assms [OF Some, of msg ctx] that unfolding keeps_sys_path_def by (metis snd_conv)
  have e: "sys_path (snd (encode_result env req r v)) = sys_path v" for r v
    by (simp add: encode_result_def log_error_def split: pyval.splits sum.splits)
  show ?thesis
    using Some
    by (auto simp: Call_def invoke_in_codedir_def Let_def os_getcwd_def log_error_def e
        split: sum.splits prod.splits dest!: os_chdir_sys_path h)
qed

subsection \<open>The small deployment loads\<close>

lemma split_index_Echo: "str_split CHR ''.'' ''index.Echo'' = [''index'', ''Echo'']"
  by simp

lemma split_index_Boom: "str_split CHR ''.'' ''index.Boom'' = [''index'', ''Boom'']"
  by simp

lemma env0_keeps_sys_path: "loaded_code_keeps_sys_path env0"
  by (auto simp: loaded_code_keeps_sys_path_def keeps_sys_path_def env0_def load_module0_def
      new_instance_def split: if_splits)

lemma chdir_srv:
  "os_chdir p (w0\<lparr>sys_path := sp\<rparr>) =
     (if p \<in> {''/srv'', ''/srv/echo'', ''/srv/boom'', ''/tmp''}
      then Inr (w0\<lparr>sys_path := sp, cwd := p\<rparr>) else Inl (PyExc ''FileNotFoundError'' p))"
  "os_chdir p (w0\<lparr>sys_path := sp, cwd := d\<rparr>) =
     (if p \<in> {''/srv'', ''/srv/echo'', ''/srv/boom'', ''/tmp''}
      then Inr (w0\<lparr>sys_path := sp, cwd := p\<rparr>) else Inl (PyExc ''FileNotFoundError'' p))"
  by (simp_all add: os_chdir_def w0_def)

lemma w0_simps: "cwd (w0\<lparr>sys_path := sp\<rparr>) = ''/srv''" "w0\<lparr>sys_path := sp, cwd := ''/srv''\<rparr> = w0\<lparr>sys_path := sp\<rparr>"
  "cwd (w0\<lparr>sys_path := sp, cwd := d\<rparr>) = d" "sys_path w0 = []" "cwd w0 = ''/srv''"
  "w0\<lparr>sys_path := sp, sys_path := sp'\<rparr> = w0\<lparr>sys_path := sp'\<rparr>"
  "sys_path (w0\<lparr>sys_path := sp\<rparr>) = sp"
  by (simp_all add: w0_def)

lemma load_function_echo:
  "load_function env0 fc_echo (w0\<lparr>sys_path := sp\<rparr>) =
     (Inr (''echo'', inst echo_handler ''echo''), w0\<lparr>sys_path := sp @ [''echo'']\<rparr>)"
  by (simp add: load_function_def fc_echo_def split_index_Echo list_pop_def Let_def os_getcwd_def
      os_path_join_def chdir_srv w0_simps env0_def load_module0_def new_instance_def inst_def)

lemma load_function_boom:
  "load_function env0 (fc_boom\<lparr>fc_name := Some nm\<rparr>) (w0\<lparr>sys_path := sp\<rparr>) =
     (Inr (nm, inst boom_handler ''boom''), w0\<lparr>sys_path := sp @ [''boom'']\<rparr>)"
  by (simp add: load_function_def fc_boom_def split_index_Boom list_pop_def Let_def os_getcwd_def
      os_path_join_def chdir_srv w0_simps env0_def load_module0_def new_instance_def inst_def)

lemma w0_sys_path_nil: "w0\<lparr>sys_path := []\<rparr> = w0"
  by (simp add: w0_def)

lemma load_modules_service:
  "load_modules env0 [fc_echo, fc_boom] w0 =
     (Inr [''echo'' \<mapsto> inst echo_handler ''echo'', ''boom'' \<mapsto> inst boom_handler ''boom''],
      w0\<lparr>sys_path := [''echo'', ''boom'']\<rparr>)"
  using load_function_echo [of "[]"] load_function_boom [of "''boom''" "[''echo'']"]
  by (simp add: load_modules_def w0_sys_path_nil fc_boom_def)


subsection \<open>The module search path\<close>

text \<open>
  C9. Registry load appends each function's code directory to \<^verbatim>\<open>sys.path\<close> and nothing
  in the program removes an entry. With loaded code that leaves \<^verbatim>\<open>sys.path\<close> as it
  is: when \<^verbatim>\<open>load_modules\<close> returns, \<^verbatim>\<open>sys.path\<close> is the old one followed by the
  code directories of the configured functions, in order, one entry per function
  (duplicates included); when it raises, the entries appended so far (those of the first
  \<open>k\<close> functions) stay; and a later \<^verbatim>\<open>Call\<close>, whose handler leaves \<^verbatim>\<open>sys.path\<close>
  alone, ends with \<^verbatim>\<open>sys.path\<close> unchanged.
\<close>

theorem load_modules_sys_path:
  assumes "loaded_code_keeps_sys_path env"
  shows "(\<forall>fs w'. load_modules env c w = (Inr fs, w') \<longrightarrow>
            sys_path w' = sys_path w @ List.map_filter fc_codedir c \<and>
            length (sys_path w') = length (sys_path w) + length c) \<and>
         (\<exists>k\<le>length c. sys_path (snd (load_modules env c w)) =
            sys_path w @ List.map_filter fc_codedir (take k c)) \<and>
         (\<forall>self req v.
            (\<forall>m msg ctx. self_modules self (FunctionName req) = Some m
               \<longrightarrow> keeps_sys_path (handler m msg ctx))
            \<longrightarrow> sys_path (snd (Call env self req v)) = sys_path v)"
proof (intro conjI allI impI)
  fix fs w'
  assume "load_modules env c w = (Inr fs, w')"
  then have l: "load_modules_loop env Map.empty c w = (Inr fs, w')"
    by (simp add: load_modules_def)
  note r = load_modules_loop_sys_path_ok [OF assms l]
  from r show "sys_path w' = sys_path w @ List.map_filter fc_codedir c" by simp
  from r show "length (sys_path w') = length (sys_path w) + length c" by simp
next
  show "\<exists>k\<le>length c. sys_path (snd (load_modules env c w)) =
            sys_path w @ List.map_filter fc_codedir (take k c)"
    unfolding load_modules_def by (rule load_modules_loop_sys_path_grows [OF assms])
next
  fix self :: mo and req :: request and v
  assume "\<forall>m msg ctx. self_modules self (FunctionName req) = Some m
               \<longrightarrow> keeps_sys_path (handler m msg ctx)"
  then show "sys_path (snd (Call env self req v)) = sys_path v"
    by (intro Call_keeps_sys_path) blast
qed


theorem load_modules_sys_path_witness:
  "sys_path (snd (load_modules env0 [fc_echo, fc_boom] w0)) = [''echo'', ''boom''] \<and>
   length (sys_path (snd (load_modules env0 [fc_echo, fc_boom] w0))) = 2 \<and>
   sys_path (snd (Call env0 mo0 (req0 ''echo'' ''1'')
                    (snd (load_modules env0 [fc_echo, fc_boom] w0)))) = [''echo'', ''boom'']"
proof -
  note t = load_modules_sys_path [OF env0_keeps_sys_path, of "[fc_echo, fc_boom]" w0]
  have k: "\<forall>m msg ctx. self_modules mo0 (FunctionName (req0 ''echo'' ''1'')) = Some m
               \<longrightarrow> keeps_sys_path (handler m msg ctx)"
    by (simp add: lookup_echo handler_inst keeps_sys_path_def echo_handler_def)
  note a = t [THEN conjunct1, rule_format, OF load_modules_service]
  have 1: "sys_path (snd (load_modules env0 [fc_echo, fc_boom] w0)) =
           sys_path w0 @ List.map_filter fc_codedir [fc_echo, fc_boom]"
    using a by (simp add: load_modules_service)
  from t k have 3: "sys_path (snd (Call env0 mo0 (req0 ''echo'' ''1'')
                    (snd (load_modules env0 [fc_echo, fc_boom] w0)))) =
             sys_path (snd (load_modules env0 [fc_echo, fc_boom] w0))"
    by blast
  show ?thesis
    using 1 3 by (simp add: map_filter_simps fc_echo_def fc_boom_def w0_simps)
qed


subsection \<open>Incomplete entries and repeated names\<close>




lemma load_modules_echo_only:
  "load_modules env0 [fc_echo] w0 =
     (Inr [''echo'' \<mapsto> inst echo_handler ''echo''], w0\<lparr>sys_path := [''echo'']\<rparr>)"
  using load_function_echo [of "[]"] by (simp add: load_modules_def w0_sys_path_nil)







subsection \<open>The working directory across a load\<close>

text \<open>
  When every entry loads, and the loaded code leaves the directories as they are,
  \<^verbatim>\<open>load_modules\<close> returns in the directory it started in, and each entry is resolved
  from that directory.
\<close>

lemma keeps_dirs_load_module:
  assumes "loaded_code_keeps_dirs env" and "load_module env hn file w = (r, w')"
  shows "realdir w' = realdir w"
  using assms unfolding loaded_code_keeps_dirs_def by (metis snd_conv)

lemma keeps_dirs_constructor:
  assumes "loaded_code_keeps_dirs env" and "load_module env hn file w = (Inr pm, w')"
    and "pm hn = Some cls" and "cls cd v = (r, v')"
  shows "realdir v' = realdir v"
  using assms unfolding loaded_code_keeps_dirs_def by (metis fst_conv snd_conv)

lemma load_function_returns_in_start_dir:
  assumes "loaded_code_keeps_dirs env" and "realdir w (cwd w) = Some (cwd w)"
    and "load_function env fc w = (Inr x, w')"
  shows "cwd w' = cwd w \<and> realdir w' = realdir w"
  using assms(2,3)
  apply (auto simp: load_function_def Let_def os_getcwd_def
      split: option.splits sum.splits prod.splits
      dest!: os_chdir_realdir)
   apply (metis assms(1) keeps_dirs_load_module keeps_dirs_constructor option.inject)+
  done

lemma load_modules_loop_returns_in_start_dir:
  assumes "loaded_code_keeps_dirs env"
  shows "realdir w (cwd w) = Some (cwd w) \<Longrightarrow> load_modules_loop env fs c w = (Inr fs', w') \<Longrightarrow>
         cwd w' = cwd w \<and> realdir w' = realdir w"
proof (induction c arbitrary: fs w)
  case Nil
  then show ?case by simp
next
  case (Cons fc c)
  from Cons.prems(2) obtain nm module w1 where
    step: "load_function env fc w = (Inr (nm, module), w1)" and
    rest: "load_modules_loop env (fs(nm \<mapsto> module)) c w1 = (Inr fs', w')"
    by (auto split: sum.splits prod.splits)
  from load_function_returns_in_start_dir [OF assms Cons.prems(1) step]
  have w1: "cwd w1 = cwd w" "realdir w1 = realdir w" by simp_all
  with Cons.prems(1) have "realdir w1 (cwd w1) = Some (cwd w1)" by simp
  from Cons.IH [OF this rest] w1 show ?case by simp
qed

text \<open>
  C2. The claim is that the working directory is restored before load returns, also when
  loading a handler raises. Two runs from \<^verbatim>\<open>/srv\<close> with one entry whose code directory
  is \<^verbatim>\<open>echo\<close>: a handler reference without a dot makes the second \<^verbatim>\<open>pop\<close> raise
  IndexError, and a reference to a class the module does not have makes \<^verbatim>\<open>getattr\<close>
  raise AttributeError. Both are raised after the \<^verbatim>\<open>chdir\<close> of line 141, and
  \<^verbatim>\<open>load_modules\<close> ends with the process in \<^verbatim>\<open>/srv/echo\<close>.
\<close>

theorem load_modules_failure_leaves_codedir:
  "cwd w0 = ''/srv'' \<and>
   load_modules env0
     [\<lparr>fc_name = Some ''f'', fc_handler = Some ''index'', fc_codedir = Some ''echo''\<rparr>] w0 =
     (Inl (PyExc ''IndexError'' ''pop from empty list''),
      w0\<lparr>sys_path := [''echo''], cwd := ''/srv/echo''\<rparr>) \<and>
   load_modules env0
     [\<lparr>fc_name = Some ''f'', fc_handler = Some ''index.Missing'', fc_codedir = Some ''echo''\<rparr>] w0 =
     (Inl (PyExc ''AttributeError'' ''Missing''),
      w0\<lparr>sys_path := [''echo''], cwd := ''/srv/echo''\<rparr>) \<and>
   cwd (w0\<lparr>sys_path := [''echo''], cwd := ''/srv/echo''\<rparr>) = ''/srv/echo''"
  by (simp add: load_modules_def load_function_def list_pop_def Let_def os_getcwd_def
      os_path_join_def os_chdir_def env0_def load_module0_def new_instance_def w0_def)



section \<open>The listener\<close>

lemma get_grpc_server_env0:
  "get_grpc_server env0 (plain_server\<lparr>ca := Some ''ca.pem'', key := Some ''key.pem'', cert := Some ''cert.pem''\<rparr>) w =
     Inr \<lparr>max_workers = None, max_message_length = 4 * 1024 * 1024,
          maximum_concurrent_rpcs = None,
          server_port = SecurePort ''0.0.0.0:50051'' ''KEY'' ''CERT'' (Some ''CA'') True,
          started = False\<rparr>"
  "get_grpc_server env0 (plain_server\<lparr>key := Some ''key.pem'', cert := Some ''cert.pem''\<rparr>) w =
     Inr \<lparr>max_workers = None, max_message_length = 4 * 1024 * 1024,
          maximum_concurrent_rpcs = None,
          server_port = SecurePort ''0.0.0.0:50051'' ''KEY'' ''CERT'' None False,
          started = False\<rparr>"
  "get_grpc_server env0 (plain_server\<lparr>ca := Some ''ca.pem'', key := Some ''key.pem''\<rparr>) w =
     Inr \<lparr>max_workers = None, max_message_length = 4 * 1024 * 1024,
          maximum_concurrent_rpcs = None,
          server_port = InsecurePort ''0.0.0.0:50051'',
          started = False\<rparr>"
  by (simp_all add: get_grpc_server_def plain_server_def nested_max_def read_if_configured_def
      env0_def read_file0_def)

text \<open>
  C8. When \<^verbatim>\<open>get_grpc_server\<close> returns a server, its port is a secure one exactly when
  the configuration has both \<^verbatim>\<open>key\<close> and \<^verbatim>\<open>cert\<close>, and an insecure one otherwise;
  client certificates are required exactly when \<^verbatim>\<open>ca\<close> is configured as well as
  \<^verbatim>\<open>key\<close> and \<^verbatim>\<open>cert\<close>; in both cases the port is on the configured address.
\<close>

theorem get_grpc_server_tls:
  assumes "get_grpc_server env c w = Inr s"
  shows "(tls_enabled (server_port s) \<longleftrightarrow> key c \<noteq> None \<and> cert c \<noteq> None) \<and>
         (require_client_auth (server_port s) \<longleftrightarrow>
            ca c \<noteq> None \<and> key c \<noteq> None \<and> cert c \<noteq> None) \<and>
         address c = Some (port_address (server_port s))"
  using assms
  by (auto simp: get_grpc_server_def read_if_configured_def Let_def
      split: option.splits sum.splits)

theorem get_grpc_server_tls_witness:
  "tls_enabled (SecurePort ''0.0.0.0:50051'' ''KEY'' ''CERT'' (Some ''CA'') True) \<and>
   require_client_auth (SecurePort ''0.0.0.0:50051'' ''KEY'' ''CERT'' (Some ''CA'') True) \<and>
   get_grpc_server env0
     (plain_server\<lparr>ca := Some ''ca.pem'', key := Some ''key.pem'', cert := Some ''cert.pem''\<rparr>) w0 =
     Inr \<lparr>max_workers = None, max_message_length = 4 * 1024 * 1024,
          maximum_concurrent_rpcs = None,
          server_port = SecurePort ''0.0.0.0:50051'' ''KEY'' ''CERT'' (Some ''CA'') True,
          started = False\<rparr> \<and>
   tls_enabled (SecurePort ''0.0.0.0:50051'' ''KEY'' ''CERT'' None False) \<and>
   \<not> require_client_auth (SecurePort ''0.0.0.0:50051'' ''KEY'' ''CERT'' None False) \<and>
   get_grpc_server env0 (plain_server\<lparr>key := Some ''key.pem'', cert := Some ''cert.pem''\<rparr>) w0 =
     Inr \<lparr>max_workers = None, max_message_length = 4 * 1024 * 1024,
          maximum_concurrent_rpcs = None,
          server_port = SecurePort ''0.0.0.0:50051'' ''KEY'' ''CERT'' None False,
          started = False\<rparr> \<and>
   \<not> tls_enabled (InsecurePort ''0.0.0.0:50051'') \<and>
   \<not> require_client_auth (InsecurePort ''0.0.0.0:50051'') \<and>
   get_grpc_server env0 (plain_server\<lparr>ca := Some ''ca.pem'', key := Some ''key.pem''\<rparr>) w0 =
     Inr \<lparr>max_workers = None, max_message_length = 4 * 1024 * 1024,
          maximum_concurrent_rpcs = None,
          server_port = InsecurePort ''0.0.0.0:50051'',
          started = False\<rparr>"
proof -
  have "tls_enabled (SecurePort ''0.0.0.0:50051'' ''KEY'' ''CERT'' (Some ''CA'') True) \<and>
        require_client_auth (SecurePort ''0.0.0.0:50051'' ''KEY'' ''CERT'' (Some ''CA'') True) \<and>
        tls_enabled (SecurePort ''0.0.0.0:50051'' ''KEY'' ''CERT'' None False) \<and>
        \<not> require_client_auth (SecurePort ''0.0.0.0:50051'' ''KEY'' ''CERT'' None False) \<and>
        \<not> tls_enabled (InsecurePort ''0.0.0.0:50051'') \<and>
        \<not> require_client_auth (InsecurePort ''0.0.0.0:50051'')"
    using get_grpc_server_tls [OF get_grpc_server_env0(1)]
      get_grpc_server_tls [OF get_grpc_server_env0(2)]
      get_grpc_server_tls [OF get_grpc_server_env0(3)]
    by (simp add: plain_server_def)
  then show ?thesis
    by (simp add: get_grpc_server_env0)
qed


section \<open>Validating the configuration\<close>

lemma check_config_missing_server:
  "check_config c = Some (PyExc ''Exception'' ''config invalid, missing server'') \<longleftrightarrow>
     cfg_name c \<noteq> None \<and> cfg_server c = None"
  by (auto simp: check_config_def split: option.splits if_splits)

lemma Load_check_fails:
  assumes "yaml_load env conf w = Inr c0"
    and "check_config (overwrite_from_env environ c0) = Some err"
  shows "Load env environ conf w = (Inl err, w)"
  using assms by (simp add: Load_def Let_def)

lemma yaml_load_bare: "yaml_load env0 ''bare.yml'' w0 = Inr conf_bare"
  by (simp add: env0_def yaml_load0_def)

lemma Load_bare_with_overrides:
  "Load env0 [''AIICY_SERVICE_INSTANCE_NAME'' \<mapsto> ''svc'',
              ''AIICY_SERVICE_INSTANCE_ADDRESS'' \<mapsto> ''127.0.0.1:1''] ''bare.yml'' w0 =
     (Inr \<lparr>self_config =
             conf_bare\<lparr>cfg_name := Some ''svc'',
                       cfg_server := Some (plain_server\<lparr>address := Some ''127.0.0.1:1''\<rparr>)\<rparr>,
           self_log = \<lparr>logger_name = ''svc'', logger_level = None, handlers = []\<rparr>,
           self_modules = [''echo'' \<mapsto> inst echo_handler ''echo''],
           self_server = \<lparr>max_workers = None, max_message_length = 4 * 1024 * 1024,
                           maximum_concurrent_rpcs = None,
                           server_port = InsecurePort ''127.0.0.1:1'', started = False\<rparr>\<rparr>,
      w0\<lparr>sys_path := [''echo'']\<rparr>)"
proof -
  have o: "overwrite_from_env [''AIICY_SERVICE_INSTANCE_NAME'' \<mapsto> ''svc'',
              ''AIICY_SERVICE_INSTANCE_ADDRESS'' \<mapsto> ''127.0.0.1:1''] conf_bare =
           conf_bare\<lparr>cfg_name := Some ''svc'',
                     cfg_server := Some (plain_server\<lparr>address := Some ''127.0.0.1:1''\<rparr>)\<rparr>"
    by (simp add: overwrite_from_env_def conf_bare_def plain_server_def)
  have c: "check_config (conf_bare\<lparr>cfg_name := Some ''svc'',
                     cfg_server := Some (plain_server\<lparr>address := Some ''127.0.0.1:1''\<rparr>)\<rparr>) = None"
    by (simp add: check_config_def conf_bare_def)
  have l: "get_logger env0 (conf_bare\<lparr>cfg_name := Some ''svc'',
                     cfg_server := Some (plain_server\<lparr>address := Some ''127.0.0.1:1''\<rparr>)\<rparr>) w0 =
             (Inr \<lparr>logger_name = ''svc'', logger_level = None, handlers = []\<rparr>, w0)"
    by (simp add: get_logger_def conf_bare_def)
  have f: "cfg_functions (conf_bare\<lparr>cfg_name := Some ''svc'',
                     cfg_server := Some (plain_server\<lparr>address := Some ''127.0.0.1:1''\<rparr>)\<rparr>)
           = Some [fc_echo]"
    by (simp add: conf_bare_def)
  have g: "get_grpc_server env0 (plain_server\<lparr>address := Some ''127.0.0.1:1''\<rparr>) w =
     Inr \<lparr>max_workers = None, max_message_length = 4 * 1024 * 1024,
          maximum_concurrent_rpcs = None, server_port = InsecurePort ''127.0.0.1:1'',
          started = False\<rparr>" for w
    by (simp add: get_grpc_server_def plain_server_def nested_max_def read_if_configured_def)
  show ?thesis
    by (simp add: Load_def yaml_load_bare o c l f load_modules_echo_only g)
qed

text \<open>
  C10, as claimed: the error \<^verbatim>\<open>config invalid, missing server\<close> is raised if and only
  if the configuration has no \<^verbatim>\<open>server\<close> section and the address override is unset.
  The file \<^verbatim>\<open>bare.yml\<close> has no \<^verbatim>\<open>server\<close> section and no \<^verbatim>\<open>name\<close>; with an
  empty environment \<^verbatim>\<open>Load\<close> raises \<^verbatim>\<open>config invalid, missing name\<close>, the check
  of line 45, which comes first.
\<close>

theorem Load_bare_config_missing_name:
  "yaml_load env0 ''bare.yml'' w0 = Inr conf_bare \<and>
   cfg_server conf_bare = None \<and>
   (Map.empty :: string \<rightharpoonup> string) ''AIICY_SERVICE_INSTANCE_ADDRESS'' = None \<and>
   Load env0 Map.empty ''bare.yml'' w0 =
     (Inl (PyExc ''Exception'' ''config invalid, missing name''), w0) \<and>
   fst (Load env0 Map.empty ''bare.yml'' w0) \<noteq>
     Inl (PyExc ''Exception'' ''config invalid, missing server'')"
  by (simp add: Load_def env0_def yaml_load0_def conf_bare_def overwrite_from_env_def
      check_config_def)


text \<open>
  C10, amended. For a configuration file that parses: the check for a \<^verbatim>\<open>server\<close>
  section fails exactly when a name is there (in the file or from the name override), the
  file has no \<^verbatim>\<open>server\<close> section and the address override is unset; a check that
  fails makes \<^verbatim>\<open>Load\<close> raise its exception with nothing else done; and when the
  address override is set, the configuration that is checked has a \<^verbatim>\<open>server\<close> section
  with that address, created if the file had none, so that neither the
  \<^verbatim>\<open>missing server\<close> nor the \<^verbatim>\<open>missing server address\<close> check fails, and all four
  checks pass when a name and the \<^verbatim>\<open>functions\<close> are there too.
\<close>

theorem Load_missing_server:
  assumes "yaml_load env conf w = Inr c0"
  shows "(check_config (overwrite_from_env environ c0) =
            Some (PyExc ''Exception'' ''config invalid, missing server'') \<longleftrightarrow>
          (cfg_name c0 \<noteq> None \<or> environ ''AIICY_SERVICE_INSTANCE_NAME'' \<noteq> None) \<and>
          cfg_server c0 = None \<and> environ ''AIICY_SERVICE_INSTANCE_ADDRESS'' = None) \<and>
         (\<forall>err. check_config (overwrite_from_env environ c0) = Some err
              \<longrightarrow> Load env environ conf w = (Inl err, w)) \<and>
         (\<forall>a. environ ''AIICY_SERVICE_INSTANCE_ADDRESS'' = Some a \<longrightarrow>
              (\<exists>s. cfg_server (overwrite_from_env environ c0) = Some s \<and> address s = Some a) \<and>
              check_config (overwrite_from_env environ c0) \<noteq>
                Some (PyExc ''Exception'' ''config invalid, missing server'') \<and>
              check_config (overwrite_from_env environ c0) \<noteq>
                Some (PyExc ''Exception'' ''config invalid, missing server address'') \<and>
              ((cfg_name c0 \<noteq> None \<or> environ ''AIICY_SERVICE_INSTANCE_NAME'' \<noteq> None) \<and>
               cfg_functions c0 \<noteq> None
               \<longrightarrow> check_config (overwrite_from_env environ c0) = None))"
proof (intro conjI allI impI)
  show "check_config (overwrite_from_env environ c0) =
            Some (PyExc ''Exception'' ''config invalid, missing server'') \<longleftrightarrow>
          (cfg_name c0 \<noteq> None \<or> environ ''AIICY_SERVICE_INSTANCE_NAME'' \<noteq> None) \<and>
          cfg_server c0 = None \<and> environ ''AIICY_SERVICE_INSTANCE_ADDRESS'' = None"
    unfolding check_config_missing_server
    by (auto simp: overwrite_from_env_def Let_def split: option.splits)
next
  fix err
  assume "check_config (overwrite_from_env environ c0) = Some err"
  then show "Load env environ conf w = (Inl err, w)"
    by (rule Load_check_fails [OF assms])
next
  fix a
  assume a: "environ ''AIICY_SERVICE_INSTANCE_ADDRESS'' = Some a"
  then show "\<exists>s. cfg_server (overwrite_from_env environ c0) = Some s \<and> address s = Some a"
    by (simp add: overwrite_from_env_def Let_def split: option.splits)
  then show "check_config (overwrite_from_env environ c0) \<noteq>
                Some (PyExc ''Exception'' ''config invalid, missing server'')"
    by (auto simp: check_config_missing_server)
  from a show "check_config (overwrite_from_env environ c0) \<noteq>
                Some (PyExc ''Exception'' ''config invalid, missing server address'')"
    by (auto simp: check_config_def overwrite_from_env_def Let_def split: option.splits if_splits)
  show "check_config (overwrite_from_env environ c0) = None"
    if "(cfg_name c0 \<noteq> None \<or> environ ''AIICY_SERVICE_INSTANCE_NAME'' \<noteq> None) \<and>
               cfg_functions c0 \<noteq> None"
    using that a
    by (auto simp: check_config_def overwrite_from_env_def Let_def split: option.splits if_splits)
qed

theorem Load_missing_server_witness:
  "check_config (overwrite_from_env [''AIICY_SERVICE_INSTANCE_NAME'' \<mapsto> ''svc'',
              ''AIICY_SERVICE_INSTANCE_ADDRESS'' \<mapsto> ''127.0.0.1:1''] conf_bare) = None \<and>
   \<not> isl (fst (Load env0 [''AIICY_SERVICE_INSTANCE_NAME'' \<mapsto> ''svc'',
              ''AIICY_SERVICE_INSTANCE_ADDRESS'' \<mapsto> ''127.0.0.1:1''] ''bare.yml'' w0)) \<and>
   Load env0 [''AIICY_SERVICE_INSTANCE_NAME'' \<mapsto> ''svc''] ''bare.yml'' w0 =
     (Inl (PyExc ''Exception'' ''config invalid, missing server''), w0)"
proof -
  note t1 = Load_missing_server [OF yaml_load_bare,
      of "[''AIICY_SERVICE_INSTANCE_NAME'' \<mapsto> ''svc'',
           ''AIICY_SERVICE_INSTANCE_ADDRESS'' \<mapsto> ''127.0.0.1:1'']"]
  note t2 = Load_missing_server [OF yaml_load_bare, of "[''AIICY_SERVICE_INSTANCE_NAME'' \<mapsto> ''svc'']"]
  have 1: "check_config (overwrite_from_env [''AIICY_SERVICE_INSTANCE_NAME'' \<mapsto> ''svc'',
              ''AIICY_SERVICE_INSTANCE_ADDRESS'' \<mapsto> ''127.0.0.1:1''] conf_bare) = None"
    using t1 [THEN conjunct2, THEN conjunct2, rule_format, of "''127.0.0.1:1''"]
    by (simp add: conf_bare_def)
  have "check_config (overwrite_from_env [''AIICY_SERVICE_INSTANCE_NAME'' \<mapsto> ''svc''] conf_bare) =
            Some (PyExc ''Exception'' ''config invalid, missing server'')"
    using t2 [THEN conjunct1] by (simp add: conf_bare_def)
  with t2 [THEN conjunct2, THEN conjunct1]
  have 3: "Load env0 [''AIICY_SERVICE_INSTANCE_NAME'' \<mapsto> ''svc''] ''bare.yml'' w0 =
     (Inl (PyExc ''Exception'' ''config invalid, missing server''), w0)"
    by blast
  show ?thesis
    using 1 3 by (simp add: Load_bare_with_overrides)
qed


end
